theory Spec2Isabelle
  imports Complex_Main
begin

section \<open>JavaScript values and objects\<close>

text \<open>
  The service is written in JavaScript. A value that travels through the request body, the
  job records and the responses is one of the following. Numbers are restricted to the
  integers that JavaScript represents exactly and prints in plain decimal (a seed, a size,
  a counter); an ISO-8601 timestamp string produced by
  \<^verbatim>\<open>new Date().toISOString()\<close> is kept as the epoch milliseconds it denotes
  (\<open>JDate\<close>), which is what \<^verbatim>\<open>new Date(str).getTime()\<close> reads back. \<open>JOther\<close> stands
  for arrays and nested objects, whose contents no handler below inspects.
\<close>

datatype js_value =
    JUndefined
  | JNull
  | JBool bool
  | JNumber int
  | JString string
  | JDate nat
  | JOther

text \<open>
  An object is a finite map from property names to values. Object spread
  \<^verbatim>\<open>{...a, ...b}\<close> is \<open>a ++ b\<close>: the properties of \<open>b\<close> win. Reading a missing
  property gives \<^verbatim>\<open>undefined\<close>.
\<close>

type_synonym obj = "string \<rightharpoonup> js_value"

definition getProp :: "obj \<Rightarrow> string \<Rightarrow> js_value" where
  "getProp ob k = (case ob k of None \<Rightarrow> JUndefined | Some v \<Rightarrow> v)"

text \<open>Spreading \<^verbatim>\<open>undefined\<close> (the result of \<^verbatim>\<open>jobs.get\<close> on a missing key) adds nothing.\<close>

definition spread_opt :: "obj option \<Rightarrow> obj" where
  "spread_opt ob = (case ob of None \<Rightarrow> Map.empty | Some m \<Rightarrow> m)"

datatype js_error = TypeError

subsection \<open>Numbers and strings\<close>

definition digit_char :: "nat \<Rightarrow> char" where
  "digit_char d = ''0123456789'' ! d"

fun digits :: "nat \<Rightarrow> string" where
  "digits n = (if n < 10 then [digit_char n] else digits (n div 10) @ [digit_char (n mod 10)])"

declare digits.simps [simp del]

definition show_int :: "int \<Rightarrow> string" where
  "show_int i = (if i < 0 then CHR ''-'' # digits (nat (- i)) else digits (nat i))"

text \<open>The string a template literal \<^verbatim>\<open>`${v}`\<close> inserts for a value. Only strings and
  numbers pass \<open>isValidSeed\<close>, so the handler reaches no other clause (for a timestamp
  the decimal milliseconds stand for the ISO text).\<close>

fun template :: "js_value \<Rightarrow> string" where
  "template JUndefined = ''undefined''"
| "template JNull = ''null''"
| "template (JBool b) = (if b then ''true'' else ''false'')"
| "template (JNumber n) = show_int n"
| "template (JString s) = s"
| "template (JDate t) = digits t"
| "template JOther = ''[object Object]''"

text \<open>
  A string is the list of the bytes of its UTF-8 encoding.

  \<^verbatim>\<open>String.prototype.toLowerCase\<close> maps the letters A to Z to a to z. Characters outside
  ASCII are left as they are: JavaScript lower-cases some of them, but the only ASCII
  letters it can produce from them are k (from the Kelvin sign) and i (from the dotted
  capital I, followed by a combining dot), and neither occurs in the name of a dimension,
  so the comparison with those names is not affected.
\<close>

definition toLowerCase_char :: "char \<Rightarrow> char" where
  "toLowerCase_char c =
     (case map_of (zip ''ABCDEFGHIJKLMNOPQRSTUVWXYZ'' ''abcdefghijklmnopqrstuvwxyz'') c of
        None \<Rightarrow> c | Some l \<Rightarrow> l)"

definition toLowerCase :: "string \<Rightarrow> string" where
  "toLowerCase s = map toLowerCase_char s"

text \<open>
  \<^verbatim>\<open>String.prototype.trim\<close> removes white space and line terminators from both ends:
  U+0009 to U+000D, U+0020, U+00A0, U+1680, U+2000 to U+200A, U+2028, U+2029, U+202F,
  U+205F, U+3000 and U+FEFF, listed here by their encodings. \<open>matchLength\<close> is the length
  of the first pattern the string starts with (0 when there is none), and \<open>dropMatches\<close>
  removes such patterns for as long as the string starts with one.
\<close>

definition whiteSpace :: "string list" where
  "whiteSpace =
     [[CHR 0x09], [CHR 0x0A], [CHR 0x0B], [CHR 0x0C], [CHR 0x0D], [CHR 0x20],
      [CHR 0xC2, CHR 0xA0], [CHR 0xE1, CHR 0x9A, CHR 0x80],
      [CHR 0xE2, CHR 0x80, CHR 0x80], [CHR 0xE2, CHR 0x80, CHR 0x81],
      [CHR 0xE2, CHR 0x80, CHR 0x82], [CHR 0xE2, CHR 0x80, CHR 0x83],
      [CHR 0xE2, CHR 0x80, CHR 0x84], [CHR 0xE2, CHR 0x80, CHR 0x85],
      [CHR 0xE2, CHR 0x80, CHR 0x86], [CHR 0xE2, CHR 0x80, CHR 0x87],
      [CHR 0xE2, CHR 0x80, CHR 0x88], [CHR 0xE2, CHR 0x80, CHR 0x89],
      [CHR 0xE2, CHR 0x80, CHR 0x8A], [CHR 0xE2, CHR 0x80, CHR 0xA8],
      [CHR 0xE2, CHR 0x80, CHR 0xA9], [CHR 0xE2, CHR 0x80, CHR 0xAF],
      [CHR 0xE2, CHR 0x81, CHR 0x9F], [CHR 0xE3, CHR 0x80, CHR 0x80],
      [CHR 0xEF, CHR 0xBB, CHR 0xBF]]"

definition matchLength :: "string list \<Rightarrow> string \<Rightarrow> nat" where
  "matchLength pats s =
     (case filter (\<lambda>w. take (length w) s = w) pats of [] \<Rightarrow> 0 | w # ws \<Rightarrow> length w)"

function dropMatches :: "string list \<Rightarrow> string \<Rightarrow> string" where
  "dropMatches pats s =
     (if matchLength pats s = 0 then s else dropMatches pats (drop (matchLength pats s) s))"
  by pat_completeness auto
termination
proof (relation "measure (\<lambda>(pats, s). length s)")
  show "wf (measure (\<lambda>(pats, s). length s))" by simp
next
  fix pats :: "string list" and s :: string
  assume n: "matchLength pats s \<noteq> 0"
  then obtain w ws where f: "filter (\<lambda>w. take (length w) s = w) pats = w # ws"
    and l: "matchLength pats s = length w"
    by (auto simp: matchLength_def split: list.splits)
  from f have "w \<in> set (filter (\<lambda>w. take (length w) s = w) pats)" by simp
  then have "take (length w) s = w" by simp
  with n l have "s \<noteq> []" by auto
  with n show "((pats, drop (matchLength pats s) s), (pats, s)) \<in> measure (\<lambda>(pats, s). length s)"
    by simp
qed

declare dropMatches.simps [simp del]

definition trimStart :: "string \<Rightarrow> string" where
  "trimStart s = dropMatches whiteSpace s"

definition trimEnd :: "string \<Rightarrow> string" where
  "trimEnd s = rev (dropMatches (map rev whiteSpace) (rev s))"

definition trim :: "string \<Rightarrow> string" where
  "trim s = trimEnd (trimStart s)"

text \<open>
  \<^verbatim>\<open>Math.round\<close> rounds to the nearest integer, a tie going up. The arguments below are
  multiples of one half of small magnitude, which binary floating point represents
  exactly, so the rationals compute what the doubles do.
\<close>

definition Math_round :: "rat \<Rightarrow> int" where
  "Math_round x = \<lfloor>x + 1 / 2\<rfloor>"

section \<open>utils.js\<close>

text \<open>\<^verbatim>\<open>generateJobId(seed, dimension)\<close>; the reading of the clock \<^verbatim>\<open>Date.now()\<close> is the
  third argument.\<close>

definition generateJobId :: "js_value \<Rightarrow> string \<Rightarrow> nat \<Rightarrow> string" where
  "generateJobId seed dimension timestamp =
     ''seed-'' @ template seed @ ''-'' @ dimension @ ''-'' @ digits timestamp"

fun isValidSeed :: "js_value \<Rightarrow> bool" where
  "isValidSeed (JString s) = (length (trim s) > 0)"
| "isValidSeed (JNumber n) = True"
| "isValidSeed _ = False"

text \<open>
  \<^verbatim>\<open>validDimensions.includes(dimension?.toLowerCase())\<close>: optional chaining gives
  \<^verbatim>\<open>undefined\<close> for \<^verbatim>\<open>undefined\<close> and \<^verbatim>\<open>null\<close>; a value of another type has no
  \<^verbatim>\<open>toLowerCase\<close> method and the call throws a TypeError.
\<close>

definition validDimensions :: "string list" where
  "validDimensions = [''overworld'', ''nether'', ''end'']"

fun isValidDimension :: "js_value \<Rightarrow> js_error + bool" where
  "isValidDimension JUndefined = Inr False"
| "isValidDimension JNull = Inr False"
| "isValidDimension (JString d) = Inr (toLowerCase d \<in> set validDimensions)"
| "isValidDimension _ = Inl TypeError"

text \<open>\<^verbatim>\<open>dimension?.toLowerCase() || 'overworld'\<close>: the empty string is falsy.\<close>

fun normalizeDimension :: "js_value \<Rightarrow> js_error + string" where
  "normalizeDimension JUndefined = Inr ''overworld''"
| "normalizeDimension JNull = Inr ''overworld''"
| "normalizeDimension (JString d) =
     Inr (if toLowerCase d = [] then ''overworld'' else toLowerCase d)"
| "normalizeDimension _ = Inl TypeError"

text \<open>
  \<^verbatim>\<open>parseInt(string)\<close> without a radix, on the string its argument is converted to:
  leading white space is dropped, then a sign, then the prefix \<open>0x\<close> or \<open>0X\<close>, which
  selects radix 16 instead of 10; the value is that of the longest run of digits of the
  radix, and \<open>None\<close> (for \<open>NaN\<close>) when there is no digit. JavaScript returns the double
  nearest to that integer, which compares with 2 and 16 as the integer itself does.
\<close>

definition digitValue :: "char \<Rightarrow> nat option" where
  "digitValue c =
     map_of (zip ''0123456789abcdefABCDEF''
                 [0, 1, 2, 3, 4, 5, 6, 7, 8, 9, 10, 11, 12, 13, 14, 15, 10, 11, 12, 13, 14, 15]) c"

definition digitOf :: "nat \<Rightarrow> char \<Rightarrow> nat option" where
  "digitOf R c = (case digitValue c of None \<Rightarrow> None | Some d \<Rightarrow> if d < R then Some d else None)"

fun leadingDigits :: "nat \<Rightarrow> string \<Rightarrow> nat list" where
  "leadingDigits R [] = []"
| "leadingDigits R (c # cs) = (case digitOf R c of None \<Rightarrow> [] | Some d \<Rightarrow> d # leadingDigits R cs)"

definition parseInt :: "string \<Rightarrow> int option" where
  "parseInt inputString =
     (let S = trimStart inputString;
          sign = (if take 1 S = ''-'' then - 1 else 1 :: int);
          S1 = (if take 1 S = ''-'' \<or> take 1 S = ''+'' then drop 1 S else S);
          stripPrefix = (take 2 S1 = ''0x'' \<or> take 2 S1 = ''0X'');
          R = (if stripPrefix then 16 else 10);
          S2 = (if stripPrefix then drop 2 S1 else S1);
          Z = leadingDigits R S2
      in if Z = [] then None else Some (sign * int (foldl (\<lambda>acc d. acc * R + d) 0 Z)))"

text \<open>\<^verbatim>\<open>isValidSize(size)\<close>; the argument is the string \<open>parseInt\<close> converts \<open>size\<close> to: for
  the number 17 the text \<open>17\<close>, for the number 2e21 the text \<open>2e+21\<close>.\<close>

definition isValidSize :: "string \<Rightarrow> bool" where
  "isValidSize sizeText =
     (case parseInt sizeText of None \<Rightarrow> False | Some numSize \<Rightarrow> numSize \<ge> 2 \<and> numSize \<le> 16)"

text \<open>
  \<^verbatim>\<open>createErrorResponse(error, message, jobId = null, retryable = false)\<close> and
  \<^verbatim>\<open>createSuccessResponse(data)\<close>. A caller that passes two arguments gets the defaults
  \<open>JNull\<close> and \<open>False\<close>.
\<close>

definition createErrorResponse :: "string \<Rightarrow> string \<Rightarrow> js_value \<Rightarrow> bool \<Rightarrow> obj" where
  "createErrorResponse err msg jobId retryable =
     [''success'' \<mapsto> JBool False, ''error'' \<mapsto> JString err, ''message'' \<mapsto> JString msg,
      ''jobId'' \<mapsto> jobId, ''retryable'' \<mapsto> JBool retryable]"

definition createSuccessResponse :: "obj \<Rightarrow> obj" where
  "createSuccessResponse data = [''success'' \<mapsto> JBool True] ++ data"

section \<open>screenshot.js: the crop geometry\<close>

record cropParams =
  crop_left :: int
  crop_top :: int
  crop_width :: int
  crop_height :: int

text \<open>
  \<^verbatim>\<open>processImage(screenshotBuffer, dimension, jobId, size = 8)\<close> of the size-parameterized
  pipeline: the crop rectangle and the final size it hands to the image library. The
  dimension is only logged.
\<close>

definition processImage :: "string \<Rightarrow> int \<Rightarrow> cropParams \<times> int" where
  "processImage dimension sizeK =
     (let left = Math_round (720 + (16 - of_int sizeK) * 62.5);
          top = Math_round (120 + (16 - of_int sizeK) * 62.5);
          width = Math_round (of_int sizeK * 125);
          height = Math_round (of_int sizeK * 125);
          cropParams = \<lparr>crop_left = left, crop_top = top, crop_width = width, crop_height = height\<rparr>;
          finalSize = width
      in (cropParams, finalSize))"

text \<open>\<^verbatim>\<open>processImage(screenshotBuffer, dimension, jobId)\<close> of the 8k-only pipeline.\<close>

definition processImage_8k :: "string \<Rightarrow> cropParams \<times> int" where
  "processImage_8k dimension =
     (if dimension = ''nether''
      then (\<lparr>crop_left = 720, crop_top = 120, crop_width = 2000, crop_height = 2000\<rparr>, 1000)
      else (\<lparr>crop_left = 1220, crop_top = 620, crop_width = 1000, crop_height = 1000\<rparr>, 1000))"

section \<open>screenshot.js: the render session\<close>

text \<open>
  \<^verbatim>\<open>generateMap(seed, dimension, jobId)\<close> runs the browser session inside one
  \<^verbatim>\<open>try\<close> block. The calls below are the ones whose exception reaches its
  \<^verbatim>\<open>catch\<close>; the cookie banner, the sidebar and the marker helpers catch their own
  errors, and closing the browser in \<^verbatim>\<open>finally\<close> does so too. What the outside
  world does is an input: for every stage, whether it throws and with which message, the
  clock read for the file name, and the base URL of the deployment.
\<close>

datatype stage = Launch | NewPage | SetViewport | Goto | Screenshot | ProcessImage | SaveImage

record world =
  throws :: "stage \<Rightarrow> string option"
  fileClock :: nat
  baseUrl :: string

fun firstThrow :: "(stage \<Rightarrow> string option) \<Rightarrow> stage list \<Rightarrow> string option" where
  "firstThrow f [] = None"
| "firstThrow f (st # sts) = (case f st of Some msg \<Rightarrow> Some msg | None \<Rightarrow> firstThrow f sts)"

definition getImageUrl :: "string \<Rightarrow> string \<Rightarrow> string" where
  "getImageUrl base filename = base @ ''/generated-maps/'' @ filename"

text \<open>The object the promise of \<open>generateMap\<close> resolves with, as the server calls it
  (three arguments). The \<open>metadata\<close> property of the success object, a nested object, is
  left out; the size-parameterized variant of the function differs from the 8k-only one
  in the file name and the metadata only.\<close>

definition generateMap :: "world \<Rightarrow> js_value \<Rightarrow> string \<Rightarrow> string \<Rightarrow> obj" where
  "generateMap w seed dimension jobId =
     (case firstThrow (throws w)
             [Launch, NewPage, SetViewport, Goto, Screenshot, ProcessImage, SaveImage] of
        None \<Rightarrow>
          (let filename = ''seed-'' @ template seed @ ''-'' @ dimension @ ''-''
                            @ digits (fileClock w) @ ''.png'';
               imageUrl = getImageUrl (baseUrl w) filename
           in [''success'' \<mapsto> JBool True, ''jobId'' \<mapsto> JString jobId,
               ''status'' \<mapsto> JString ''ready'', ''imageUrl'' \<mapsto> JString imageUrl,
               ''filename'' \<mapsto> JString filename])
      | Some msg \<Rightarrow>
          [''success'' \<mapsto> JBool False, ''jobId'' \<mapsto> JString jobId,
           ''status'' \<mapsto> JString ''failed'', ''error'' \<mapsto> JString ''GENERATION_FAILED'',
           ''message'' \<mapsto> JString (''Failed to generate map: '' @ msg),
           ''retryable'' \<mapsto> JBool True])"

section \<open>server.js\<close>

text \<open>
  \<^verbatim>\<open>parseInt(process.env.MAX_CONCURRENT_JOBS) || 3\<close>; the argument is what \<open>parseInt\<close>
  returned, \<open>None\<close> for \<open>NaN\<close>. Zero is falsy.
\<close>

definition MAX_CONCURRENT_JOBS :: "int option \<Rightarrow> int" where
  "MAX_CONCURRENT_JOBS parsed = (case parsed of None \<Rightarrow> 3 | Some n \<Rightarrow> if n = 0 then 3 else n)"

text \<open>
  The state of the process: the \<open>jobs\<close> map, the counter \<open>activeJobs\<close>, and the promises
  returned by \<open>generateMap\<close> that have not settled yet. A promise carries the arguments its
  call was made with; the completion handlers are attached to it and close over its job id.
\<close>

record promise =
  p_seed :: js_value
  p_dimension :: string
  p_jobId :: string

record server =
  jobs :: "string \<rightharpoonup> obj"
  activeJobs :: int
  pending :: "promise list"

definition init :: server where
  "init = \<lparr>jobs = Map.empty, activeJobs = 0, pending = []\<rparr>"

record response =
  code :: nat
  json :: obj

definition serverError :: response where
  "serverError = \<lparr>code = 500, json = createErrorResponse ''SERVER_ERROR'' ''Internal server error'' JNull False\<rparr>"

text \<open>
  \<^verbatim>\<open>POST /api/generate\<close>. The arguments are the ceiling, the two clock readings of the
  handler (\<open>Date.now()\<close> inside \<open>generateJobId\<close>, \<open>new Date()\<close> for \<open>createdAt\<close>) and the
  parsed JSON body, an object. A TypeError thrown by a helper is caught by the handler's
  own \<^verbatim>\<open>try\<close>/\<^verbatim>\<open>catch\<close> and answered with status 500.
\<close>

definition generate :: "int \<Rightarrow> nat \<Rightarrow> nat \<Rightarrow> obj \<Rightarrow> server \<Rightarrow> response \<times> server" where
  "generate maxJobs tId tCreated reqBody s =
     (let seed = getProp reqBody ''seed'';
          dimension = (case getProp reqBody ''dimension'' of
                         JUndefined \<Rightarrow> JString ''overworld'' | v \<Rightarrow> v)
      in if \<not> isValidSeed seed then
           (\<lparr>code = 400, json = createErrorResponse ''INVALID_SEED''
                ''Seed is required and must be a valid string or number'' JNull False\<rparr>, s)
         else case isValidDimension dimension of
           Inl e \<Rightarrow> (serverError, s)
         | Inr False \<Rightarrow>
             (\<lparr>code = 400, json = createErrorResponse ''INVALID_DIMENSION''
                  ''Dimension must be one of: overworld, nether, end'' JNull False\<rparr>, s)
         | Inr True \<Rightarrow>
             if activeJobs s \<ge> maxJobs then
               (\<lparr>code = 429, json = createErrorResponse ''TOO_MANY_JOBS''
                    (''Maximum '' @ show_int maxJobs @ '' concurrent jobs allowed'') JNull False\<rparr>, s)
             else (case normalizeDimension dimension of
               Inl e \<Rightarrow> (serverError, s)
             | Inr normalizedDimension \<Rightarrow>
                 (let jobId = generateJobId seed normalizedDimension tId;
                      job = [''status'' \<mapsto> JString ''processing'', ''seed'' \<mapsto> seed,
                             ''dimension'' \<mapsto> JString normalizedDimension,
                             ''createdAt'' \<mapsto> JDate tCreated,
                             ''progress'' \<mapsto> JString ''Starting map generation...''];
                      s' = s\<lparr>jobs := (jobs s)(jobId \<mapsto> job),
                              activeJobs := activeJobs s + 1,
                              pending := pending s @
                                [\<lparr>p_seed = seed, p_dimension = normalizedDimension, p_jobId = jobId\<rparr>]\<rparr>
                  in (\<lparr>code = 200, json = createSuccessResponse
                         [''jobId'' \<mapsto> JString jobId, ''status'' \<mapsto> JString ''processing'',
                          ''estimatedTime'' \<mapsto> JString ''30-60 seconds'']\<rparr>, s'))))"

text \<open>The handler given to \<^verbatim>\<open>.then\<close>: the result object and the clock reading for
  \<open>completedAt\<close> are its inputs.\<close>

definition onFulfilled :: "string \<Rightarrow> obj \<Rightarrow> nat \<Rightarrow> server \<Rightarrow> server" where
  "onFulfilled jobId result tDone s =
     s\<lparr>jobs := (jobs s)(jobId \<mapsto>
                 spread_opt (jobs s jobId) ++ result ++ [''completedAt'' \<mapsto> JDate tDone]),
       activeJobs := activeJobs s - 1\<rparr>"

text \<open>The handler given to \<^verbatim>\<open>.catch\<close>, with the message of the error.\<close>

definition onRejected :: "string \<Rightarrow> string \<Rightarrow> nat \<Rightarrow> server \<Rightarrow> server" where
  "onRejected jobId errMessage tDone s =
     s\<lparr>jobs := (jobs s)(jobId \<mapsto>
                 spread_opt (jobs s jobId) ++
                 [''status'' \<mapsto> JString ''failed'', ''error'' \<mapsto> JString ''GENERATION_FAILED'',
                  ''message'' \<mapsto> JString errMessage, ''completedAt'' \<mapsto> JDate tDone]),
       activeJobs := activeJobs s - 1\<rparr>"

text \<open>\<^verbatim>\<open>GET /api/status/:jobId\<close>. A property whose value is \<^verbatim>\<open>undefined\<close> is dropped when
  the response is serialised. (The refresh of \<open>metadata\<close> from the stored file is left out.)\<close>

definition getStatus :: "string \<Rightarrow> server \<Rightarrow> response" where
  "getStatus jobId s =
     (case jobs s jobId of
        None \<Rightarrow> \<lparr>code = 404, json = createErrorResponse ''JOB_NOT_FOUND'' ''Job not found'' JNull False\<rparr>
      | Some job \<Rightarrow>
          \<lparr>code = 200, json = createSuccessResponse
             ([''jobId'' \<mapsto> JString jobId, ''status'' \<mapsto> getProp job ''status'']
              ++ (if getProp job ''status'' = JString ''ready''
                  then [''imageUrl'' \<mapsto> getProp job ''imageUrl'',
                        ''metadata'' \<mapsto> getProp job ''metadata'']
                  else Map.empty)
              ++ (if getProp job ''status'' = JString ''processing''
                  then [''progress'' \<mapsto> getProp job ''progress'']
                  else Map.empty)
              ++ (if getProp job ''status'' = JString ''failed''
                  then [''error'' \<mapsto> getProp job ''error'',
                        ''message'' \<mapsto> getProp job ''message'',
                        ''retryable'' \<mapsto> getProp job ''retryable'']
                  else Map.empty))\<rparr>)"

text \<open>\<^verbatim>\<open>POST /api/cleanup\<close>: the jobs map after the loop. A record without a readable
  \<open>createdAt\<close> has age \<open>NaN\<close> and stays.\<close>

definition maxAge :: int where
  "maxAge = 24 * 60 * 60 * 1000"

definition expired :: "nat \<Rightarrow> obj \<Rightarrow> bool" where
  "expired now job =
     (case getProp job ''createdAt'' of
        JDate t \<Rightarrow> int now - int t > maxAge \<and>
                   (getProp job ''status'' = JString ''ready'' \<or> getProp job ''status'' = JString ''failed'')
      | _ \<Rightarrow> False)"

definition cleanup :: "nat \<Rightarrow> server \<Rightarrow> server" where
  "cleanup now s =
     s\<lparr>jobs := (\<lambda>jobId. case jobs s jobId of
                           None \<Rightarrow> None
                         | Some job \<Rightarrow> if expired now job then None else Some job)\<rparr>"

subsection \<open>Executions\<close>

text \<open>
  What can happen to the process: a request to generate, a pending promise (given by its
  position in the list) fulfilled with the object \<open>generateMap\<close> returns in some world, a
  pending promise rejected with an error, a cleanup request. A promise settles once: it
  leaves the list when its handler runs, and an event for a promise that is not pending
  cannot happen. Since \<open>generateMap\<close> catches what its stages throw, its promise is
  rejected only when its own \<^verbatim>\<open>catch\<close> block throws, for instance on a thrown value
  that has no \<open>message\<close> to read.
\<close>

datatype event =
    Generate obj nat nat
  | Fulfil nat world nat
  | Reject nat string nat
  | Cleanup nat

definition dropAt :: "nat \<Rightarrow> 'a list \<Rightarrow> 'a list" where
  "dropAt i xs = take i xs @ drop (Suc i) xs"

fun step :: "int \<Rightarrow> server \<Rightarrow> event \<Rightarrow> server option" where
  "step maxJobs s (Generate reqBody tId tCreated) = Some (snd (generate maxJobs tId tCreated reqBody s))"
| "step maxJobs s (Fulfil i w tDone) =
     (if i < length (pending s)
      then (let p = pending s ! i
            in Some (onFulfilled (p_jobId p) (generateMap w (p_seed p) (p_dimension p) (p_jobId p)) tDone
                       (s\<lparr>pending := dropAt i (pending s)\<rparr>)))
      else None)"
| "step maxJobs s (Reject i errMessage tDone) =
     (if i < length (pending s)
      then (let p = pending s ! i
            in Some (onRejected (p_jobId p) errMessage tDone (s\<lparr>pending := dropAt i (pending s)\<rparr>)))
      else None)"
| "step maxJobs s (Cleanup now) = Some (cleanup now s)"

fun run :: "int \<Rightarrow> server \<Rightarrow> event list \<Rightarrow> server option" where
  "run maxJobs s [] = Some s"
| "run maxJobs s (e # es) = (case step maxJobs s e of None \<Rightarrow> None | Some s' \<Rightarrow> run maxJobs s' es)"

text \<open>The status of a job as a client sees it: \<open>None\<close> when the job is not found.\<close>

definition statusOf :: "server \<Rightarrow> string \<Rightarrow> js_value option" where
  "statusOf s jobId = (case jobs s jobId of None \<Rightarrow> None | Some job \<Rightarrow> Some (getProp job ''status''))"

definition isCompletion :: "event \<Rightarrow> bool" where
  "isCompletion e = (case e of Fulfil i w t \<Rightarrow> True | Reject i m t \<Rightarrow> True | _ \<Rightarrow> False)"

text \<open>A body that passes the two validations of the generate handler.\<close>

definition validBody :: "obj \<Rightarrow> bool" where
  "validBody reqBody =
     (isValidSeed (getProp reqBody ''seed'') \<and>
      isValidDimension (case getProp reqBody ''dimension'' of
                          JUndefined \<Rightarrow> JString ''overworld'' | v \<Rightarrow> v) = Inr True)"

subsection \<open>Auxiliary notions\<close>

text \<open>The state the last branch of \<open>generate\<close> leaves behind, for the normalized dimension
  \<open>nd\<close>.\<close>

definition admitted :: "nat \<Rightarrow> nat \<Rightarrow> obj \<Rightarrow> string \<Rightarrow> server \<Rightarrow> server" where
  "admitted tId tCreated reqBody nd s =
     s\<lparr>jobs := (jobs s)(generateJobId (getProp reqBody ''seed'') nd tId \<mapsto>
          [''status'' \<mapsto> JString ''processing'', ''seed'' \<mapsto> getProp reqBody ''seed'',
           ''dimension'' \<mapsto> JString nd, ''createdAt'' \<mapsto> JDate tCreated,
           ''progress'' \<mapsto> JString ''Starting map generation...'']),
       activeJobs := activeJobs s + 1,
       pending := pending s @
         [\<lparr>p_seed = getProp reqBody ''seed'', p_dimension = nd,
           p_jobId = generateJobId (getProp reqBody ''seed'') nd tId\<rparr>]\<rparr>"

text \<open>The counter agrees with the number of pending promises and is below the ceiling.\<close>

definition counted :: "int \<Rightarrow> server \<Rightarrow> bool" where
  "counted maxJobs s = (activeJobs s = int (length (pending s)) \<and> activeJobs s \<le> maxJobs)"

text \<open>A request body, and two worlds: one in which every stage succeeds and one in which
  navigation times out.\<close>

definition body_12345 :: obj where
  "body_12345 = [''seed'' \<mapsto> JString ''12345'', ''dimension'' \<mapsto> JString ''overworld'']"

definition world_ok :: world where
  "world_ok = \<lparr>throws = (\<lambda>st. None), fileClock = 1700000030000, baseUrl = ''http://localhost:3001''\<rparr>"

definition world_nav_fails :: world where
  "world_nav_fails = \<lparr>throws = (\<lambda>st. if st = Goto then Some ''Navigation timeout of 30000 ms exceeded'' else None),
      fileClock = 1700000030000, baseUrl = ''http://localhost:3001''\<rparr>"

text \<open>Bodies that carry a size, a dimension in mixed case, and no dimension.\<close>

definition body_size17 :: obj where
  "body_size17 = [''seed'' \<mapsto> JString ''12345'', ''dimension'' \<mapsto> JString ''overworld'',
                  ''size'' \<mapsto> JNumber 17]"

definition body_NeThEr :: obj where
  "body_NeThEr = [''seed'' \<mapsto> JString ''12345'', ''dimension'' \<mapsto> JString ''NeThEr'']"

definition body_seed_only :: obj where
  "body_seed_only = [''seed'' \<mapsto> JString ''12345'']"

text \<open>The job ids of the pending promises, and the position of the promise an event settles.\<close>

definition pendingIds :: "server \<Rightarrow> string list" where
  "pendingIds s = map p_jobId (pending s)"

definition settles :: "event \<Rightarrow> nat option" where
  "settles e = (case e of Fulfil i w t \<Rightarrow> Some i | Reject i m t \<Rightarrow> Some i | _ \<Rightarrow> None)"

text \<open>
  States used in the examples: after one request for seed 12345 in the overworld, and
  after a second such request in the same millisecond.
\<close>

definition job_processing :: "nat \<Rightarrow> obj" where
  "job_processing tCreated =
     [''status'' \<mapsto> JString ''processing'', ''seed'' \<mapsto> JString ''12345'',
      ''dimension'' \<mapsto> JString ''overworld'', ''createdAt'' \<mapsto> JDate tCreated,
      ''progress'' \<mapsto> JString ''Starting map generation...'']"

definition promise_12345 :: "string \<Rightarrow> promise" where
  "promise_12345 jobId = \<lparr>p_seed = JString ''12345'', p_dimension = ''overworld'', p_jobId = jobId\<rparr>"

definition one_job :: server where
  "one_job = \<lparr>jobs = [''seed-12345-overworld-1700000000000'' \<mapsto> job_processing 1700000000000],
              activeJobs = 1,
              pending = [promise_12345 ''seed-12345-overworld-1700000000000'']\<rparr>"

definition same_id_twice :: server where
  "same_id_twice = \<lparr>jobs = [''seed-12345-overworld-1700000000000'' \<mapsto> job_processing 1700000000000],
              activeJobs = 2,
              pending = [promise_12345 ''seed-12345-overworld-1700000000000'',
                         promise_12345 ''seed-12345-overworld-1700000000000'']\<rparr>"

section \<open>Properties of the crop geometry\<close>

lemmas trim_eval =
  trim_def trimStart_def trimEnd_def dropMatches.simps matchLength_def whiteSpace_def

lemma Math_round_of_int: "Math_round (of_int n) = n"
  unfolding Math_round_def by linarith

lemma Math_round_halves:
  "Math_round (of_int a + of_int b * 62.5) = a + (125 * b + 1) div 2"
proof -
  have "(of_int a + of_int b * 62.5 + 1 / 2 :: rat) = of_int (2 * a + 125 * b + 1) / of_int 2"
    by (simp add: field_simps)
  then have "Math_round (of_int a + of_int b * 62.5) = (2 * a + 125 * b + 1) div 2"
    unfolding Math_round_def by (simp only: floor_divide_of_int_eq)
  then show ?thesis by simp
qed

lemma processImage_closed_form:
  "processImage dimension s =
     (\<lparr>crop_left = 720 + (125 * (16 - s) + 1) div 2, crop_top = 120 + (125 * (16 - s) + 1) div 2,
       crop_width = 125 * s, crop_height = 125 * s\<rparr>, 125 * s)"
proof -
  have l: "Math_round (720 + (16 - of_int s) * 62.5) = 720 + (125 * (16 - s) + 1) div 2"
    using Math_round_halves [of 720 "16 - s"] by simp
  have t: "Math_round (120 + (16 - of_int s) * 62.5) = 120 + (125 * (16 - s) + 1) div 2"
    using Math_round_halves [of 120 "16 - s"] by simp
  have w: "Math_round (of_int s * 125) = 125 * s"
    using Math_round_of_int [of "s * 125"] by (simp add: mult.commute)
  show ?thesis
    unfolding processImage_def Let_def l t w by simp
qed

text \<open>
  Claim C1. For the dimensions overworld and end and every supported size \<open>s\<close> from 2 to 16,
  the size-parameterized crop has left \<open>round (720 + (16 - s) * 62.5)\<close>, top
  \<open>round (120 + (16 - s) * 62.5)\<close> and width, height and final size \<open>round (s * 125)\<close>,
  where \<open>round\<close> is rounding to the nearest integer; in integers these are
  \<open>720 + (125 * (16 - s) + 1) div 2\<close>, \<open>120 + (125 * (16 - s) + 1) div 2\<close> and
  \<open>125 * s\<close>. At the endpoint 2 the rectangle is left 1595, top 995, side 250, and at the
  endpoint 16 it is the reference anchor: left 720, top 120, side 2000.
\<close>

theorem C1_crop_overworld_end:
  assumes "dimension = ''overworld'' \<or> dimension = ''end''" and "2 \<le> s" and "s \<le> 16"
  shows "processImage dimension s =
           (\<lparr>crop_left = round (720 + (16 - of_int s) * (62.5 :: rat)),
             crop_top = round (120 + (16 - of_int s) * (62.5 :: rat)),
             crop_width = round (of_int s * (125 :: rat)),
             crop_height = round (of_int s * (125 :: rat))\<rparr>,
            round (of_int s * (125 :: rat)))
         \<and> processImage dimension s =
           (\<lparr>crop_left = 720 + (125 * (16 - s) + 1) div 2,
             crop_top = 120 + (125 * (16 - s) + 1) div 2,
             crop_width = 125 * s, crop_height = 125 * s\<rparr>, 125 * s)
         \<and> processImage dimension 2 =
           (\<lparr>crop_left = 1595, crop_top = 995, crop_width = 250, crop_height = 250\<rparr>, 250)
         \<and> processImage dimension 16 =
           (\<lparr>crop_left = 720, crop_top = 120, crop_width = 2000, crop_height = 2000\<rparr>, 2000)"
proof -
  have a: "processImage dimension s =
           (\<lparr>crop_left = round (720 + (16 - of_int s) * (62.5 :: rat)),
             crop_top = round (120 + (16 - of_int s) * (62.5 :: rat)),
             crop_width = round (of_int s * (125 :: rat)),
             crop_height = round (of_int s * (125 :: rat))\<rparr>,
            round (of_int s * (125 :: rat)))"
    by (simp add: processImage_def Let_def Math_round_def round_def)
  have b: "processImage dimension 2 =
           (\<lparr>crop_left = 1595, crop_top = 995, crop_width = 250, crop_height = 250\<rparr>, 250)"
    by (simp add: processImage_closed_form)
  have c: "processImage dimension 16 =
           (\<lparr>crop_left = 720, crop_top = 120, crop_width = 2000, crop_height = 2000\<rparr>, 2000)"
    by (simp add: processImage_closed_form)
  show ?thesis using a b c processImage_closed_form by blast
qed

theorem C1_crop_overworld_end_witness:
  "(''end'' = ''overworld'' \<or> ''end'' = ''end'') \<and> (2::int) \<le> 15 \<and> (15::int) \<le> 16
   \<and> processImage ''end'' 15 =
       (\<lparr>crop_left = 783, crop_top = 183, crop_width = 1875, crop_height = 1875\<rparr>, 1875)
   \<and> round (720 + (16 - of_int 15) * (62.5 :: rat)) = 783"
proof -
  have r1: "round (720 + (16 - of_int 15) * (62.5 :: rat)) = 783"
    by (simp add: round_def)
  have r2: "round (120 + (16 - of_int 15) * (62.5 :: rat)) = 183"
    by (simp add: round_def)
  show ?thesis
    using C1_crop_overworld_end [of "''end''" 15] r1 r2 by simp
qed

text \<open>
  Claim C2 asks the nether crop to be one fixed rectangle whatever the size. The
  size-parameterized \<open>processImage\<close> applies the size formula to the nether as well: at
  size 2 it crops 250 pixels at (1595, 995), at size 16 it crops 2000 pixels at
  (720, 120), so the two differ. The 8k-only \<open>processImage\<close> has the nether branch with
  the fixed rectangle (720, 120, 2000, 2000) resized to 1000.
\<close>

theorem C2_nether_crop_varies_with_size:
  "processImage ''nether'' 2 =
     (\<lparr>crop_left = 1595, crop_top = 995, crop_width = 250, crop_height = 250\<rparr>, 250)
   \<and> processImage ''nether'' 16 =
     (\<lparr>crop_left = 720, crop_top = 120, crop_width = 2000, crop_height = 2000\<rparr>, 2000)
   \<and> processImage ''nether'' 2 \<noteq> processImage ''nether'' 16
   \<and> processImage_8k ''nether'' =
     (\<lparr>crop_left = 720, crop_top = 120, crop_width = 2000, crop_height = 2000\<rparr>, 1000)"
  by (simp add: processImage_closed_form processImage_8k_def)

text \<open>
  Claim C8. For the dimensions overworld and end, the size-parameterized crop at size 8 is
  the crop of the 8k-only pipeline: left 1220, top 620, width 1000, height 1000, final
  size 1000.
\<close>

theorem C8_parameterized_refines_8k:
  assumes "dimension = ''overworld'' \<or> dimension = ''end''"
  shows "processImage dimension 8 = processImage_8k dimension
         \<and> processImage_8k dimension =
             (\<lparr>crop_left = 1220, crop_top = 620, crop_width = 1000, crop_height = 1000\<rparr>, 1000)"
  using assms by (auto simp add: processImage_closed_form processImage_8k_def)

theorem C8_parameterized_refines_8k_witness:
  "(''overworld'' = ''overworld'' \<or> ''overworld'' = ''end'')
   \<and> processImage ''overworld'' 8 = processImage_8k ''overworld''
   \<and> processImage ''overworld'' 8 =
        (\<lparr>crop_left = 1220, crop_top = 620, crop_width = 1000, crop_height = 1000\<rparr>, 1000)"
  using C8_parameterized_refines_8k [of "''overworld''"] by simp

section \<open>Properties of admission\<close>

lemma MAX_CONCURRENT_JOBS_values:
  "MAX_CONCURRENT_JOBS None = 3"
  "MAX_CONCURRENT_JOBS (Some 0) = 3"
  "n \<noteq> 0 \<Longrightarrow> MAX_CONCURRENT_JOBS (Some n) = n"
  by (simp_all add: MAX_CONCURRENT_JOBS_def)

lemma getProp_simps [simp]:
  "getProp (m(k \<mapsto> v)) k = v"
  "k' \<noteq> k \<Longrightarrow> getProp (m(k \<mapsto> v)) k' = getProp m k'"
  "getProp Map.empty k = JUndefined"
  by (simp_all add: getProp_def)

lemma toLowerCase_overworld: "toLowerCase ''overworld'' = ''overworld''"
  by (simp add: toLowerCase_def toLowerCase_char_def)

lemma validBody_12345: "validBody body_12345"
  by (simp add: validBody_def body_12345_def trim_eval toLowerCase_overworld validDimensions_def)

lemma valid_dimension_normalizes:
  assumes "isValidDimension d = Inr True"
  shows "\<exists>str. d = JString str \<and> toLowerCase str \<in> set validDimensions
           \<and> normalizeDimension d = Inr (toLowerCase str)"
proof (cases d)
  case (JString str)
  with assms have m: "toLowerCase str \<in> set validDimensions" by simp
  then have "toLowerCase str \<noteq> []" by (auto simp: validDimensions_def)
  with JString m show ?thesis by simp
qed (use assms in simp_all)

lemma generate_full:
  assumes "validBody reqBody" and "activeJobs s < maxJobs"
  shows "\<exists>nd. normalizeDimension (case getProp reqBody ''dimension'' of
                          JUndefined \<Rightarrow> JString ''overworld'' | v \<Rightarrow> v) = Inr nd
           \<and> nd \<in> set validDimensions
           \<and> generate maxJobs tId tCreated reqBody s =
               (\<lparr>code = 200, json = createSuccessResponse
                   [''jobId'' \<mapsto> JString (generateJobId (getProp reqBody ''seed'') nd tId),
                    ''status'' \<mapsto> JString ''processing'',
                    ''estimatedTime'' \<mapsto> JString ''30-60 seconds'']\<rparr>,
                admitted tId tCreated reqBody nd s)"
proof -
  let ?d = "case getProp reqBody ''dimension'' of JUndefined \<Rightarrow> JString ''overworld'' | v \<Rightarrow> v"
  from assms(1) have vs: "isValidSeed (getProp reqBody ''seed'')" and vd: "isValidDimension ?d = Inr True"
    by (simp_all add: validBody_def)
  from valid_dimension_normalizes [OF vd] obtain str where
    n: "normalizeDimension ?d = Inr (toLowerCase str)" and m: "toLowerCase str \<in> set validDimensions"
    by blast
  have "generate maxJobs tId tCreated reqBody s =
               (\<lparr>code = 200, json = createSuccessResponse
                   [''jobId'' \<mapsto> JString (generateJobId (getProp reqBody ''seed'') (toLowerCase str) tId),
                    ''status'' \<mapsto> JString ''processing'',
                    ''estimatedTime'' \<mapsto> JString ''30-60 seconds'']\<rparr>,
                admitted tId tCreated reqBody (toLowerCase str) s)"
    using vs vd n assms(2) unfolding generate_def admitted_def Let_def by simp
  with n m show ?thesis by blast
qed

lemma generate_at_ceiling:
  assumes "maxJobs \<le> activeJobs s"
  shows "snd (generate maxJobs tId tCreated reqBody s) = s"
  using assms unfolding generate_def Let_def
  by (simp split: sum.splits bool.splits)

lemma generate_at_ceiling_valid:
  assumes "validBody reqBody" and "maxJobs \<le> activeJobs s"
  shows "fst (generate maxJobs tId tCreated reqBody s) =
           \<lparr>code = 429, json = createErrorResponse ''TOO_MANY_JOBS''
                (''Maximum '' @ show_int maxJobs @ '' concurrent jobs allowed'') JNull False\<rparr>"
  using assms unfolding generate_def Let_def validBody_def by simp

lemma generate_counts:
  "snd (generate maxJobs tId tCreated reqBody s) = s \<or>
   (activeJobs s < maxJobs
    \<and> activeJobs (snd (generate maxJobs tId tCreated reqBody s)) = activeJobs s + 1
    \<and> length (pending (snd (generate maxJobs tId tCreated reqBody s))) = length (pending s) + 1)"
  unfolding generate_def Let_def
  by (simp split: sum.splits bool.splits)

lemma length_dropAt: "i < length xs \<Longrightarrow> length (dropAt i xs) = length xs - 1"
  by (simp add: dropAt_def)

lemma step_counted:
  assumes "counted maxJobs s" and "step maxJobs s e = Some s'"
  shows "counted maxJobs s'"
proof (cases e)
  case (Generate reqBody tId tCreated)
  with assms(2) have s': "s' = snd (generate maxJobs tId tCreated reqBody s)" by simp
  from generate_counts [of maxJobs tId tCreated reqBody s] assms(1) show ?thesis
    unfolding s' counted_def by auto
next
  case (Fulfil i w tDone)
  with assms show ?thesis
    by (auto simp: counted_def onFulfilled_def Let_def length_dropAt split: if_splits)
next
  case (Reject i m tDone)
  with assms show ?thesis
    by (auto simp: counted_def onRejected_def Let_def length_dropAt split: if_splits)
next
  case (Cleanup now)
  with assms show ?thesis
    by (auto simp: counted_def cleanup_def)
qed

lemma run_counted:
  assumes "counted maxJobs s" and "run maxJobs s es = Some s'"
  shows "counted maxJobs s'"
  using assms
proof (induction es arbitrary: s)
  case Nil
  then show ?case by simp
next
  case (Cons e es)
  then show ?case
    by (auto split: option.splits dest: step_counted)
qed

lemma init_counted: "0 \<le> maxJobs \<Longrightarrow> counted maxJobs init"
  by (simp add: counted_def init_def)

lemma completion_decrements:
  assumes "isCompletion e" and "step maxJobs s e = Some s'"
  shows "activeJobs s' = activeJobs s - 1"
  using assms
  by (cases e) (auto simp: isCompletion_def onFulfilled_def onRejected_def Let_def split: if_splits)

text \<open>
  Claim C3. With a positive ceiling, in every state reached from the initial one by
  requests, completions of pending promises and cleanups, the counter \<open>activeJobs\<close> lies
  between 0 and the ceiling. While the counter is at or above the ceiling a request leaves
  the state as it is (no job record, the counter unchanged), and a request that passes
  validation is answered with status 429 and the error \<open>TOO_MANY_JOBS\<close>. When the counter
  is at the ceiling and one pending promise completes, the next valid request is admitted
  (status 200), which brings the counter back to the ceiling, and the valid request after
  it is rejected with status 429 and changes nothing.
\<close>

theorem C3_admission_bounded:
  assumes "0 < maxJobs" and "run maxJobs init es = Some s"
  shows "0 \<le> activeJobs s \<and> activeJobs s \<le> maxJobs
     \<and> (\<forall>tId tCreated reqBody. maxJobs \<le> activeJobs s \<longrightarrow>
           snd (generate maxJobs tId tCreated reqBody s) = s
           \<and> (validBody reqBody \<longrightarrow>
                code (fst (generate maxJobs tId tCreated reqBody s)) = 429
                \<and> json (fst (generate maxJobs tId tCreated reqBody s)) ''error''
                    = Some (JString ''TOO_MANY_JOBS'')))
     \<and> (\<forall>e s' b1 t1 c1 b2 t2 c2.
           activeJobs s = maxJobs \<and> isCompletion e \<and> step maxJobs s e = Some s'
           \<and> validBody b1 \<and> validBody b2 \<longrightarrow>
             code (fst (generate maxJobs t1 c1 b1 s')) = 200
             \<and> activeJobs (snd (generate maxJobs t1 c1 b1 s')) = maxJobs
             \<and> code (fst (generate maxJobs t2 c2 b2 (snd (generate maxJobs t1 c1 b1 s')))) = 429
             \<and> snd (generate maxJobs t2 c2 b2 (snd (generate maxJobs t1 c1 b1 s')))
                 = snd (generate maxJobs t1 c1 b1 s'))"
proof -
  from assms have c: "counted maxJobs s"
    using run_counted [OF init_counted] by simp
  then have bounds: "0 \<le> activeJobs s \<and> activeJobs s \<le> maxJobs"
    by (simp add: counted_def)
  have reject: "snd (generate maxJobs tId tCreated reqBody s) = s
           \<and> (validBody reqBody \<longrightarrow>
                code (fst (generate maxJobs tId tCreated reqBody s)) = 429
                \<and> json (fst (generate maxJobs tId tCreated reqBody s)) ''error''
                    = Some (JString ''TOO_MANY_JOBS''))"
    if "maxJobs \<le> activeJobs s" for tId tCreated reqBody
    using that generate_at_ceiling [of maxJobs s tId tCreated reqBody]
      generate_at_ceiling_valid [of reqBody maxJobs s tId tCreated]
    by (simp add: createErrorResponse_def)
  have again: "code (fst (generate maxJobs t1 c1 b1 s')) = 200
             \<and> activeJobs (snd (generate maxJobs t1 c1 b1 s')) = maxJobs
             \<and> code (fst (generate maxJobs t2 c2 b2 (snd (generate maxJobs t1 c1 b1 s')))) = 429
             \<and> snd (generate maxJobs t2 c2 b2 (snd (generate maxJobs t1 c1 b1 s')))
                 = snd (generate maxJobs t1 c1 b1 s')"
    if h: "activeJobs s = maxJobs \<and> isCompletion e \<and> step maxJobs s e = Some s' \<and> validBody b1 \<and> validBody b2"
    for e s' b1 t1 c1 b2 t2 c2
  proof -
    from h completion_decrements [of e maxJobs s s'] have a: "activeJobs s' = maxJobs - 1" by simp
    then have lt: "activeJobs s' < maxJobs" by simp
    from generate_full [of b1 s' maxJobs t1 c1] h lt obtain nd where
      g: "generate maxJobs t1 c1 b1 s' =
               (\<lparr>code = 200, json = createSuccessResponse
                   [''jobId'' \<mapsto> JString (generateJobId (getProp b1 ''seed'') nd t1),
                    ''status'' \<mapsto> JString ''processing'',
                    ''estimatedTime'' \<mapsto> JString ''30-60 seconds'']\<rparr>,
                admitted t1 c1 b1 nd s')"
      by blast
    have b: "activeJobs (admitted t1 c1 b1 nd s') = maxJobs"
      using a by (simp add: admitted_def)
    show ?thesis
      using g b h generate_at_ceiling [of maxJobs "admitted t1 c1 b1 nd s'" t2 c2 b2]
        generate_at_ceiling_valid [of b2 maxJobs "admitted t1 c1 b1 nd s'" t2 c2]
      by simp
  qed
  from bounds reject again show ?thesis by blast
qed

lemma run_one_12345:
  "run 1 init [Generate body_12345 1700000000000 1700000000000]
     = Some (admitted 1700000000000 1700000000000 body_12345 ''overworld'' init)"
  using generate_full [of body_12345 init 1 1700000000000 1700000000000] validBody_12345
  by (auto simp: init_def body_12345_def toLowerCase_overworld)

theorem C3_admission_bounded_witness:
  "(0::int) < 1
   \<and> run 1 init [Generate body_12345 1700000000000 1700000000000]
       = Some (admitted 1700000000000 1700000000000 body_12345 ''overworld'' init)
   \<and> activeJobs (admitted 1700000000000 1700000000000 body_12345 ''overworld'' init) = 1
   \<and> code (fst (generate 1 1700000000001 1700000000001 body_12345
                 (admitted 1700000000000 1700000000000 body_12345 ''overworld'' init))) = 429
   \<and> isCompletion (Fulfil 0 world_ok 1700000031000)
   \<and> step 1 (admitted 1700000000000 1700000000000 body_12345 ''overworld'' init)
             (Fulfil 0 world_ok 1700000031000) \<noteq> None
   \<and> code (fst (generate 1 1700000040000 1700000040000 body_12345
        (the (step 1 (admitted 1700000000000 1700000000000 body_12345 ''overworld'' init)
             (Fulfil 0 world_ok 1700000031000))))) = 200"
proof -
  let ?s = "admitted 1700000000000 1700000000000 body_12345 ''overworld'' init"
  let ?e = "Fulfil 0 world_ok 1700000031000"
  have a: "activeJobs ?s = 1" by (simp add: admitted_def init_def)
  have en: "step 1 ?s ?e \<noteq> None"
    by (simp add: admitted_def Let_def)
  then obtain s' where s': "step 1 ?s ?e = Some s'" by blast
  have ic: "isCompletion ?e" by (simp add: isCompletion_def)
  have pos: "(0::int) < 1" by simp
  note T = C3_admission_bounded [OF pos run_one_12345]
  from T have full: "\<forall>tId tCreated reqBody. 1 \<le> activeJobs ?s \<longrightarrow>
           snd (generate 1 tId tCreated reqBody ?s) = ?s
           \<and> (validBody reqBody \<longrightarrow>
                code (fst (generate 1 tId tCreated reqBody ?s)) = 429
                \<and> json (fst (generate 1 tId tCreated reqBody ?s)) ''error''
                    = Some (JString ''TOO_MANY_JOBS''))"
    by blast
  from full a validBody_12345
  have r: "code (fst (generate 1 1700000000001 1700000000001 body_12345 ?s)) = 429"
    by simp
  from T have more: "\<forall>e s' b1 t1 c1 b2 t2 c2.
           activeJobs ?s = 1 \<and> isCompletion e \<and> step 1 ?s e = Some s'
           \<and> validBody b1 \<and> validBody b2 \<longrightarrow>
             code (fst (generate 1 t1 c1 b1 s')) = 200
             \<and> activeJobs (snd (generate 1 t1 c1 b1 s')) = 1
             \<and> code (fst (generate 1 t2 c2 b2 (snd (generate 1 t1 c1 b1 s')))) = 429
             \<and> snd (generate 1 t2 c2 b2 (snd (generate 1 t1 c1 b1 s')))
                 = snd (generate 1 t1 c1 b1 s')"
    by blast
  from more a ic s' validBody_12345
  have ok: "code (fst (generate 1 1700000040000 1700000040000 body_12345 s')) = 200"
    by blast
  from s' have "the (step 1 ?s ?e) = s'" by simp
  with ok have ok': "code (fst (generate 1 1700000040000 1700000040000 body_12345
        (the (step 1 ?s ?e)))) = 200"
    by simp
  from pos run_one_12345 a r ic en ok' show ?thesis by blast
qed

section \<open>Properties of the generate handler\<close>

lemma jobId_12345:
  "generateJobId (JString ''12345'') ''overworld'' 1700000000000 = ''seed-12345-overworld-1700000000000''"
  by (simp add: generateJobId_def digits.simps digit_char_def)

lemma toLowerCase_NeThEr: "toLowerCase ''NeThEr'' = ''nether''"
  by (simp add: toLowerCase_def toLowerCase_char_def)

lemmas parseInt_eval = parseInt_def trimStart_def dropMatches.simps matchLength_def whiteSpace_def
  digitOf_def digitValue_def Let_def

lemma digitOf_digit_char: "d < 10 \<Longrightarrow> digitOf 10 (digit_char d) = Some d"
proof -
  assume "d < 10"
  then have "d = 0 \<or> d = 1 \<or> d = 2 \<or> d = 3 \<or> d = 4 \<or> d = 5 \<or> d = 6 \<or> d = 7 \<or> d = 8 \<or> d = 9"
    by arith
  then show ?thesis
    by (elim disjE) (simp_all add: digit_char_def digitOf_def digitValue_def)
qed

lemma digit_char_plain:
  assumes "d < 10"
  shows "matchLength whiteSpace (digit_char d # cs) = 0"
    and "digit_char d \<noteq> CHR ''-''" and "digit_char d \<noteq> CHR ''+''"
    and "digit_char d \<noteq> CHR ''x''" and "digit_char d \<noteq> CHR ''X''"
proof -
  from assms
  have c: "d = 0 \<or> d = 1 \<or> d = 2 \<or> d = 3 \<or> d = 4 \<or> d = 5 \<or> d = 6 \<or> d = 7 \<or> d = 8 \<or> d = 9"
    by arith
  from c show "matchLength whiteSpace (digit_char d # cs) = 0"
    by (elim disjE) (simp_all add: digit_char_def matchLength_def whiteSpace_def)
  from c show "digit_char d \<noteq> CHR ''-''" by (elim disjE) (simp_all add: digit_char_def)
  from c show "digit_char d \<noteq> CHR ''+''" by (elim disjE) (simp_all add: digit_char_def)
  from c show "digit_char d \<noteq> CHR ''x''" by (elim disjE) (simp_all add: digit_char_def)
  from c show "digit_char d \<noteq> CHR ''X''" by (elim disjE) (simp_all add: digit_char_def)
qed

lemma digits_chars: "\<exists>d ds. digits n = digit_char d # ds \<and> d < 10 \<and> (\<forall>c \<in> set ds. \<exists>e < 10. c = digit_char e)"
proof (induction n rule: digits.induct)
  case (1 n)
  show ?case
  proof (cases "n < 10")
    case True
    then show ?thesis by (subst digits.simps) auto
  next
    case False
    from 1 [OF False] obtain d ds where h: "digits (n div 10) = digit_char d # ds" "d < 10"
      "\<forall>c \<in> set ds. \<exists>e < 10. c = digit_char e" by blast
    have "digits n = digit_char d # (ds @ [digit_char (n mod 10)])"
      using False h(1) by (subst digits.simps) simp
    moreover have "\<forall>c \<in> set (ds @ [digit_char (n mod 10)]). \<exists>e < 10. c = digit_char e"
      using h(3) by (auto intro: exI [of _ "n mod 10"])
    ultimately show ?thesis using h(2) by blast
  qed
qed

lemma leadingDigits_append:
  "\<forall>c \<in> set xs. digitOf R c \<noteq> None \<Longrightarrow>
     leadingDigits R (xs @ ys) = leadingDigits R xs @ leadingDigits R ys"
  by (induction xs) (auto split: option.splits)

lemma digits_all_decimal: "\<forall>c \<in> set (digits n). digitOf 10 c \<noteq> None"
proof -
  from digits_chars [of n] obtain d ds where h: "digits n = digit_char d # ds" "d < 10"
      "\<forall>c \<in> set ds. \<exists>e < 10. c = digit_char e" by blast
  then show ?thesis by (auto simp: digitOf_digit_char)
qed

lemma leadingDigits_digits:
  "leadingDigits 10 (digits n) \<noteq> [] \<and> foldl (\<lambda>acc d. acc * 10 + d) 0 (leadingDigits 10 (digits n)) = n"
proof (induction n rule: digits.induct)
  case (1 n)
  show ?case
  proof (cases "n < 10")
    case True
    then show ?thesis by (subst (1 2) digits.simps) (simp add: digitOf_digit_char)
  next
    case False
    have m: "n mod 10 < 10" by simp
    have "leadingDigits 10 (digits n)
            = leadingDigits 10 (digits (n div 10)) @ [n mod 10]"
      using False leadingDigits_append [OF digits_all_decimal, of "n div 10" "[digit_char (n mod 10)]"]
      by (subst digits.simps) (simp add: digitOf_digit_char [OF m])
    with 1 [OF False] show ?thesis by simp
  qed
qed

lemma parseInt_digits: "parseInt (digits n) = Some (int n)"
proof -
  from digits_chars [of n] obtain d ds where h: "digits n = digit_char d # ds" "d < 10"
      "\<forall>c \<in> set ds. \<exists>e < 10. c = digit_char e" by blast
  note p = digit_char_plain [OF h(2)]
  have t: "trimStart (digits n) = digits n"
    unfolding h(1) trimStart_def using p(1) [of ds] by (subst dropMatches.simps) simp
  have x: "take 2 (digits n) \<noteq> ''0x'' \<and> take 2 (digits n) \<noteq> ''0X''"
  proof (cases ds)
    case Nil
    then show ?thesis using h(1) by simp
  next
    case (Cons e es)
    with h(3) obtain k where "k < 10" "e = digit_char k" by auto
    with digit_char_plain(4,5) [of k] Cons h(1) show ?thesis by simp
  qed
  have s: "take 1 (digits n) \<noteq> ''-'' \<and> take 1 (digits n) \<noteq> ''+''"
    using h(1) p(2,3) by simp
  show ?thesis
    unfolding parseInt_def t Let_def using s x leadingDigits_digits [of n] by simp
qed

lemma parseInt_minus_digits: "parseInt (CHR ''-'' # digits n) = Some (- int n)"
proof -
  from digits_chars [of n] obtain d ds where h: "digits n = digit_char d # ds" "d < 10"
      "\<forall>c \<in> set ds. \<exists>e < 10. c = digit_char e" by blast
  note p = digit_char_plain [OF h(2)]
  have m: "matchLength whiteSpace (CHR ''-'' # digits n) = 0"
    by (simp add: matchLength_def whiteSpace_def)
  have t: "trimStart (CHR ''-'' # digits n) = CHR ''-'' # digits n"
    unfolding trimStart_def using m by (subst dropMatches.simps) simp
  have x: "take 2 (digits n) \<noteq> ''0x'' \<and> take 2 (digits n) \<noteq> ''0X''"
  proof (cases ds)
    case Nil
    then show ?thesis using h(1) by simp
  next
    case (Cons e es)
    with h(3) obtain k where "k < 10" "e = digit_char k" by auto
    with digit_char_plain(4,5) [of k] Cons h(1) show ?thesis by simp
  qed
  show ?thesis
    unfolding parseInt_def t Let_def using x leadingDigits_digits [of n] by simp
qed

lemma parseInt_show_int: "parseInt (show_int n) = Some n"
  by (simp add: show_int_def parseInt_digits parseInt_minus_digits)

lemma isValidSize_plain_decimal: "isValidSize (show_int n) = (2 \<le> n \<and> n \<le> 16)"
  by (simp add: isValidSize_def parseInt_show_int)

lemma generate_ignores_size:
  "generate maxJobs tId tCreated (reqBody(''size'' \<mapsto> v)) s = generate maxJobs tId tCreated reqBody s"
  by (simp add: generate_def getProp_def)

lemma validBody_size17: "validBody body_size17"
  by (simp add: validBody_def body_size17_def trim_eval toLowerCase_overworld validDimensions_def)

text \<open>
  Claim C6 says that a request whose size is outside 2 to 16 is rejected before a job
  record exists and before the counter changes. The generate handler reads only the seed
  and the dimension of the body: a request with seed 12345, dimension overworld and size
  17, a size \<open>isValidSize\<close> refuses, is answered with status 200, its job record is
  created and the counter becomes 1.
\<close>

theorem C6_size17_admitted:
  "\<not> isValidSize (template (getProp body_size17 ''size''))
   \<and> code (fst (generate 3 1700000000000 1700000000000 body_size17 init)) = 200
   \<and> activeJobs (snd (generate 3 1700000000000 1700000000000 body_size17 init)) = 1
   \<and> jobs (snd (generate 3 1700000000000 1700000000000 body_size17 init))
        ''seed-12345-overworld-1700000000000'' \<noteq> None"
proof -
  have a: "activeJobs init < 3" by (simp add: init_def)
  from generate_full [OF validBody_size17 a, of 1700000000000 1700000000000]
  have g: "generate 3 1700000000000 1700000000000 body_size17 init =
               (\<lparr>code = 200, json = createSuccessResponse
                   [''jobId'' \<mapsto> JString (generateJobId (JString ''12345'') ''overworld'' 1700000000000),
                    ''status'' \<mapsto> JString ''processing'',
                    ''estimatedTime'' \<mapsto> JString ''30-60 seconds'']\<rparr>,
                admitted 1700000000000 1700000000000 body_size17 ''overworld'' init)"
    by (auto simp: body_size17_def toLowerCase_overworld)
  show ?thesis
    unfolding g
    by (simp add: isValidSize_plain_decimal admitted_def init_def body_size17_def jobId_12345)
qed

text \<open>
  Claim C6 as amended: the generate handler does not read the size of the body, so its
  response and the state it leaves are the same whatever size the body carries. The range
  check \<open>isValidSize\<close>, which the handler does not call, goes by the integer \<open>parseInt\<close>
  reads at the start of the text of the size: a size whose text is the plain decimal
  numeral of an integer \<open>n\<close> is accepted exactly when \<open>n\<close> lies between 2 and 16, and the
  number 2e21, whose text is \<open>2e+21\<close>, is accepted because the text starts with 2.
\<close>

theorem C6_size_not_read:
  "generate maxJobs tId tCreated (reqBody(''size'' \<mapsto> v)) s = generate maxJobs tId tCreated reqBody s
   \<and> isValidSize (show_int n) = (2 \<le> n \<and> n \<le> 16)
   \<and> isValidSize ''2e+21''"
proof -
  have e: "isValidSize ''2e+21''"
    by (simp add: isValidSize_def parseInt_eval)
  show ?thesis
    using e by (simp add: generate_ignores_size isValidSize_plain_decimal)
qed


lemma generate_admits_string:
  assumes "isValidSeed (getProp reqBody ''seed'')" and "activeJobs s < maxJobs"
    and "(case getProp reqBody ''dimension'' of JUndefined \<Rightarrow> JString ''overworld'' | v \<Rightarrow> v) = JString d"
    and "toLowerCase d \<in> set validDimensions"
  shows "generate maxJobs tId tCreated reqBody s =
           (\<lparr>code = 200, json = createSuccessResponse
               [''jobId'' \<mapsto> JString (generateJobId (getProp reqBody ''seed'') (toLowerCase d) tId),
                ''status'' \<mapsto> JString ''processing'',
                ''estimatedTime'' \<mapsto> JString ''30-60 seconds'']\<rparr>,
            admitted tId tCreated reqBody (toLowerCase d) s)"
proof -
  from assms(4) have ne: "toLowerCase d \<noteq> []" by (auto simp: validDimensions_def)
  show ?thesis
    using assms ne unfolding generate_def admitted_def Let_def by simp
qed

lemma jobs_admitted:
  "jobs (admitted tId tCreated reqBody nd s) (generateJobId (getProp reqBody ''seed'') nd tId) =
     Some [''status'' \<mapsto> JString ''processing'', ''seed'' \<mapsto> getProp reqBody ''seed'',
           ''dimension'' \<mapsto> JString nd, ''createdAt'' \<mapsto> JDate tCreated,
           ''progress'' \<mapsto> JString ''Starting map generation...'']"
  by (simp add: admitted_def)

text \<open>
  Claim C10. Let the seed be valid and the counter below the ceiling. A request without a
  dimension is accepted (status 200) and its job record has the dimension overworld. A
  request whose dimension is a string that lower-cases to overworld, nether or end is
  accepted, and its job record holds the lower-cased dimension.
\<close>

theorem C10_dimension_default_and_lowercase:
  assumes "isValidSeed (getProp reqBody ''seed'')" and "activeJobs s < maxJobs"
  shows "(reqBody ''dimension'' = None \<longrightarrow>
            code (fst (generate maxJobs tId tCreated reqBody s)) = 200
            \<and> jobs (snd (generate maxJobs tId tCreated reqBody s))
                 (generateJobId (getProp reqBody ''seed'') ''overworld'' tId) =
               Some [''status'' \<mapsto> JString ''processing'', ''seed'' \<mapsto> getProp reqBody ''seed'',
                     ''dimension'' \<mapsto> JString ''overworld'', ''createdAt'' \<mapsto> JDate tCreated,
                     ''progress'' \<mapsto> JString ''Starting map generation...''])
       \<and> (\<forall>d. reqBody ''dimension'' = Some (JString d)
                \<and> toLowerCase d \<in> {''overworld'', ''nether'', ''end''} \<longrightarrow>
            code (fst (generate maxJobs tId tCreated reqBody s)) = 200
            \<and> jobs (snd (generate maxJobs tId tCreated reqBody s))
                 (generateJobId (getProp reqBody ''seed'') (toLowerCase d) tId) =
               Some [''status'' \<mapsto> JString ''processing'', ''seed'' \<mapsto> getProp reqBody ''seed'',
                     ''dimension'' \<mapsto> JString (toLowerCase d), ''createdAt'' \<mapsto> JDate tCreated,
                     ''progress'' \<mapsto> JString ''Starting map generation...''])"
proof (intro conjI impI allI)
  assume none: "reqBody ''dimension'' = None"
  then have d: "(case getProp reqBody ''dimension'' of JUndefined \<Rightarrow> JString ''overworld'' | v \<Rightarrow> v)
                  = JString ''overworld''"
    by (simp add: getProp_def)
  have m: "toLowerCase ''overworld'' \<in> set validDimensions"
    by (simp add: toLowerCase_overworld validDimensions_def)
  note g = generate_admits_string [OF assms d m, of tId tCreated, unfolded toLowerCase_overworld]
  show "code (fst (generate maxJobs tId tCreated reqBody s)) = 200"
    unfolding g by simp
  show "jobs (snd (generate maxJobs tId tCreated reqBody s))
                 (generateJobId (getProp reqBody ''seed'') ''overworld'' tId) =
               Some [''status'' \<mapsto> JString ''processing'', ''seed'' \<mapsto> getProp reqBody ''seed'',
                     ''dimension'' \<mapsto> JString ''overworld'', ''createdAt'' \<mapsto> JDate tCreated,
                     ''progress'' \<mapsto> JString ''Starting map generation...'']"
    unfolding g by (simp add: jobs_admitted)
next
  fix d
  assume h: "reqBody ''dimension'' = Some (JString d)
                \<and> toLowerCase d \<in> {''overworld'', ''nether'', ''end''}"
  then have d: "(case getProp reqBody ''dimension'' of JUndefined \<Rightarrow> JString ''overworld'' | v \<Rightarrow> v)
                  = JString d"
    by (simp add: getProp_def)
  from h have m: "toLowerCase d \<in> set validDimensions"
    by (simp add: validDimensions_def)
  note g = generate_admits_string [OF assms d m, of tId tCreated]
  show "code (fst (generate maxJobs tId tCreated reqBody s)) = 200"
    unfolding g by simp
  show "jobs (snd (generate maxJobs tId tCreated reqBody s))
                 (generateJobId (getProp reqBody ''seed'') (toLowerCase d) tId) =
               Some [''status'' \<mapsto> JString ''processing'', ''seed'' \<mapsto> getProp reqBody ''seed'',
                     ''dimension'' \<mapsto> JString (toLowerCase d), ''createdAt'' \<mapsto> JDate tCreated,
                     ''progress'' \<mapsto> JString ''Starting map generation...'']"
    unfolding g by (simp add: jobs_admitted)
qed

theorem C10_dimension_default_and_lowercase_witness:
  "isValidSeed (getProp body_seed_only ''seed'') \<and> activeJobs init < 3
   \<and> body_seed_only ''dimension'' = None
   \<and> code (fst (generate 3 1700000000000 1700000000000 body_seed_only init)) = 200
   \<and> getProp (the (jobs (snd (generate 3 1700000000000 1700000000000 body_seed_only init))
        ''seed-12345-overworld-1700000000000'')) ''dimension'' = JString ''overworld''
   \<and> isValidSeed (getProp body_NeThEr ''seed'')
   \<and> body_NeThEr ''dimension'' = Some (JString ''NeThEr'')
   \<and> toLowerCase ''NeThEr'' \<in> {''overworld'', ''nether'', ''end''}
   \<and> code (fst (generate 3 1700000000000 1700000000000 body_NeThEr init)) = 200
   \<and> getProp (the (jobs (snd (generate 3 1700000000000 1700000000000 body_NeThEr init))
        ''seed-12345-nether-1700000000000'')) ''dimension'' = JString ''nether''"
proof -
  have v1: "isValidSeed (getProp body_seed_only ''seed'')"
    by (simp add: body_seed_only_def trim_eval)
  have v2: "isValidSeed (getProp body_NeThEr ''seed'')"
    by (simp add: body_NeThEr_def trim_eval)
  have a: "activeJobs init < 3" by (simp add: init_def)
  have n1: "body_seed_only ''dimension'' = None" by (simp add: body_seed_only_def)
  have n2: "body_NeThEr ''dimension'' = Some (JString ''NeThEr'')" by (simp add: body_NeThEr_def)
  have l: "toLowerCase ''NeThEr'' \<in> {''overworld'', ''nether'', ''end''}"
    by (simp add: toLowerCase_NeThEr)
  have s1: "getProp body_seed_only ''seed'' = JString ''12345''" by (simp add: body_seed_only_def)
  have s2: "getProp body_NeThEr ''seed'' = JString ''12345''" by (simp add: body_NeThEr_def)
  have j1: "generateJobId (JString ''12345'') ''overworld'' 1700000000000 = ''seed-12345-overworld-1700000000000''"
    by (simp add: generateJobId_def digits.simps digit_char_def)
  have j2: "generateJobId (JString ''12345'') ''nether'' 1700000000000 = ''seed-12345-nether-1700000000000''"
    by (simp add: generateJobId_def digits.simps digit_char_def)
  from C10_dimension_default_and_lowercase [OF v1 a, of 1700000000000 1700000000000] n1
  have r1: "code (fst (generate 3 1700000000000 1700000000000 body_seed_only init)) = 200
   \<and> getProp (the (jobs (snd (generate 3 1700000000000 1700000000000 body_seed_only init))
        ''seed-12345-overworld-1700000000000'')) ''dimension'' = JString ''overworld''"
    by (simp add: s1 j1)
  from C10_dimension_default_and_lowercase [OF v2 a, of 1700000000000 1700000000000] n2 l
  have r2: "code (fst (generate 3 1700000000000 1700000000000 body_NeThEr init)) = 200
   \<and> getProp (the (jobs (snd (generate 3 1700000000000 1700000000000 body_NeThEr init))
        ''seed-12345-nether-1700000000000'')) ''dimension'' = JString ''nether''"
    by (simp add: s2 j2 toLowerCase_NeThEr)
  from v1 v2 a n1 n2 l r1 r2 show ?thesis by blast
qed

section \<open>Properties of completion\<close>

lemma generate_12345:
  assumes "activeJobs s < maxJobs"
  shows "generate maxJobs tId tCreated body_12345 s =
           (\<lparr>code = 200, json = createSuccessResponse
               [''jobId'' \<mapsto> JString (generateJobId (JString ''12345'') ''overworld'' tId),
                ''status'' \<mapsto> JString ''processing'',
                ''estimatedTime'' \<mapsto> JString ''30-60 seconds'']\<rparr>,
            admitted tId tCreated body_12345 ''overworld'' s)"
proof -
  have v: "isValidSeed (getProp body_12345 ''seed'')"
    by (simp add: body_12345_def trim_eval)
  have d: "(case getProp body_12345 ''dimension'' of JUndefined \<Rightarrow> JString ''overworld'' | v \<Rightarrow> v)
             = JString ''overworld''"
    by (simp add: body_12345_def)
  have m: "toLowerCase ''overworld'' \<in> set validDimensions"
    by (simp add: toLowerCase_overworld validDimensions_def)
  have s: "getProp body_12345 ''seed'' = JString ''12345''" by (simp add: body_12345_def)
  from generate_admits_string [OF v assms d m, of tId tCreated]
  show ?thesis by (simp add: toLowerCase_overworld s)
qed

lemma admitted_12345:
  "admitted tId tCreated body_12345 ''overworld'' s =
     s\<lparr>jobs := (jobs s)(generateJobId (JString ''12345'') ''overworld'' tId \<mapsto>
          [''status'' \<mapsto> JString ''processing'', ''seed'' \<mapsto> JString ''12345'',
           ''dimension'' \<mapsto> JString ''overworld'', ''createdAt'' \<mapsto> JDate tCreated,
           ''progress'' \<mapsto> JString ''Starting map generation...'']),
       activeJobs := activeJobs s + 1,
       pending := pending s @
         [\<lparr>p_seed = JString ''12345'', p_dimension = ''overworld'',
           p_jobId = generateJobId (JString ''12345'') ''overworld'' tId\<rparr>]\<rparr>"
  by (simp add: admitted_def body_12345_def)

lemma generateMap_nav_fails:
  "generateMap world_nav_fails seed dimension jobId =
          [''success'' \<mapsto> JBool False, ''jobId'' \<mapsto> JString jobId,
           ''status'' \<mapsto> JString ''failed'', ''error'' \<mapsto> JString ''GENERATION_FAILED'',
           ''message'' \<mapsto> JString ''Failed to generate map: Navigation timeout of 30000 ms exceeded'',
           ''retryable'' \<mapsto> JBool True]"
  by (simp add: generateMap_def world_nav_fails_def)

lemma generateMap_ok_status:
  "generateMap world_ok seed dimension jobId ''status'' = Some (JString ''ready'')"
  by (simp add: generateMap_def world_ok_def Let_def)

text \<open>
  Claim C7 says that every failed job has \<open>retryable = true\<close> in its record and in the
  answer of the status endpoint. When the promise of \<open>generateMap\<close> is rejected, the
  handler given to \<^verbatim>\<open>.catch\<close> marks the job failed without a \<open>retryable\<close> property, and
  the status endpoint answers with \<open>retryable\<close> undefined. When navigation fails inside
  \<open>generateMap\<close>, the failure object it returns carries \<open>retryable = true\<close>, which the
  handler given to \<^verbatim>\<open>.then\<close> copies into the record and the status endpoint shows.
\<close>

theorem C7_rejection_handler_omits_retryable:
  "(case run 3 init [Generate body_12345 1700000000000 1700000000000,
                     Reject 0 ''Protocol error'' 1700000031000] of
      None \<Rightarrow> False
    | Some s \<Rightarrow>
        statusOf s ''seed-12345-overworld-1700000000000'' = Some (JString ''failed'')
        \<and> the (jobs s ''seed-12345-overworld-1700000000000'') ''retryable'' = None
        \<and> code (getStatus ''seed-12345-overworld-1700000000000'' s) = 200
        \<and> json (getStatus ''seed-12345-overworld-1700000000000'' s) ''retryable'' = Some JUndefined)
   \<and> (case run 3 init [Generate body_12345 1700000000000 1700000000000,
                       Fulfil 0 world_nav_fails 1700000031000] of
      None \<Rightarrow> False
    | Some s \<Rightarrow>
        statusOf s ''seed-12345-overworld-1700000000000'' = Some (JString ''failed'')
        \<and> the (jobs s ''seed-12345-overworld-1700000000000'') ''retryable'' = Some (JBool True)
        \<and> json (getStatus ''seed-12345-overworld-1700000000000'' s) ''retryable'' = Some (JBool True))"
proof -
  have a: "activeJobs init < 3" by (simp add: init_def)
  note g = generate_12345 [OF a, of 1700000000000 1700000000000]
  have s1: "admitted 1700000000000 1700000000000 body_12345 ''overworld'' init =
     \<lparr>jobs = [''seed-12345-overworld-1700000000000'' \<mapsto>
          [''status'' \<mapsto> JString ''processing'', ''seed'' \<mapsto> JString ''12345'',
           ''dimension'' \<mapsto> JString ''overworld'', ''createdAt'' \<mapsto> JDate 1700000000000,
           ''progress'' \<mapsto> JString ''Starting map generation...'']],
       activeJobs = 1,
       pending = [\<lparr>p_seed = JString ''12345'', p_dimension = ''overworld'',
           p_jobId = ''seed-12345-overworld-1700000000000''\<rparr>]\<rparr>"
    by (simp add: admitted_12345 jobId_12345 init_def)
  show ?thesis
    by (simp add: g s1 dropAt_def Let_def
        onRejected_def onFulfilled_def generateMap_nav_fails statusOf_def getStatus_def
        spread_opt_def getProp_def createSuccessResponse_def)
qed

lemma generate_init_12345:
  "generate 3 1700000000000 1700000000000 body_12345 init =
     (\<lparr>code = 200, json = createSuccessResponse
         [''jobId'' \<mapsto> JString ''seed-12345-overworld-1700000000000'',
          ''status'' \<mapsto> JString ''processing'',
          ''estimatedTime'' \<mapsto> JString ''30-60 seconds'']\<rparr>, one_job)"
proof -
  have a: "activeJobs init < 3" by (simp add: init_def)
  show ?thesis
    unfolding generate_12345 [OF a]
    by (simp add: admitted_12345 jobId_12345 init_def one_job_def job_processing_def promise_12345_def)
qed

lemma generate_again_same_ms:
  "generate 3 1700000000000 1700000000000 body_12345 one_job =
     (\<lparr>code = 200, json = createSuccessResponse
         [''jobId'' \<mapsto> JString ''seed-12345-overworld-1700000000000'',
          ''status'' \<mapsto> JString ''processing'',
          ''estimatedTime'' \<mapsto> JString ''30-60 seconds'']\<rparr>, same_id_twice)"
proof -
  have a: "activeJobs one_job < 3" by (simp add: one_job_def)
  show ?thesis
    unfolding generate_12345 [OF a]
    by (simp add: admitted_12345 jobId_12345 one_job_def same_id_twice_def job_processing_def
        promise_12345_def)
qed

text \<open>
  Claim C9 says that two distinct submissions get distinct job ids. The id is built from
  the seed, the dimension and the clock in milliseconds: two requests for seed 12345 in
  the overworld that read the same clock value are both admitted, both answered with the
  id seed-12345-overworld-1700000000000, and leave two pending promises under that one id.
\<close>

theorem C9_same_millisecond_same_job_id:
  "generateJobId (JString ''12345'') ''overworld'' 1700000000000 = ''seed-12345-overworld-1700000000000''
   \<and> code (fst (generate 3 1700000000000 1700000000000 body_12345 init)) = 200
   \<and> json (fst (generate 3 1700000000000 1700000000000 body_12345 init)) ''jobId''
        = Some (JString ''seed-12345-overworld-1700000000000'')
   \<and> code (fst (generate 3 1700000000000 1700000000000 body_12345
                  (snd (generate 3 1700000000000 1700000000000 body_12345 init)))) = 200
   \<and> json (fst (generate 3 1700000000000 1700000000000 body_12345
                  (snd (generate 3 1700000000000 1700000000000 body_12345 init)))) ''jobId''
        = Some (JString ''seed-12345-overworld-1700000000000'')
   \<and> activeJobs (snd (generate 3 1700000000000 1700000000000 body_12345
                  (snd (generate 3 1700000000000 1700000000000 body_12345 init)))) = 2
   \<and> map p_jobId (pending (snd (generate 3 1700000000000 1700000000000 body_12345
                  (snd (generate 3 1700000000000 1700000000000 body_12345 init)))))
        = [''seed-12345-overworld-1700000000000'', ''seed-12345-overworld-1700000000000'']"
  by (simp add: jobId_12345 generate_init_12345 generate_again_same_ms createSuccessResponse_def
      same_id_twice_def promise_12345_def)

text \<open>
  Claim C5 says that a job moves from not found to processing and then once to ready or
  failed, and never between terminal states. With the two requests of claim C9 sharing one
  job id, the job is not found at first and processing after the requests; the first
  promise is fulfilled with a rendered map and the job is ready; the second promise is
  fulfilled with the failure object of a navigation timeout and the same job is failed.
\<close>

theorem C5_terminal_status_overwritten:
  "statusOf init ''seed-12345-overworld-1700000000000'' = None
   \<and> (case run 3 init [Generate body_12345 1700000000000 1700000000000,
                       Generate body_12345 1700000000000 1700000000000] of
        None \<Rightarrow> False
      | Some s \<Rightarrow> statusOf s ''seed-12345-overworld-1700000000000'' = Some (JString ''processing''))
   \<and> (case run 3 init [Generate body_12345 1700000000000 1700000000000,
                       Generate body_12345 1700000000000 1700000000000,
                       Fulfil 0 world_ok 1700000031000] of
        None \<Rightarrow> False
      | Some s \<Rightarrow> statusOf s ''seed-12345-overworld-1700000000000'' = Some (JString ''ready''))
   \<and> (case run 3 init [Generate body_12345 1700000000000 1700000000000,
                       Generate body_12345 1700000000000 1700000000000,
                       Fulfil 0 world_ok 1700000031000,
                       Fulfil 0 world_nav_fails 1700000032000] of
        None \<Rightarrow> False
      | Some s \<Rightarrow> statusOf s ''seed-12345-overworld-1700000000000'' = Some (JString ''failed''))"
proof -
  have a: "statusOf init ''seed-12345-overworld-1700000000000'' = None"
    by (simp add: statusOf_def init_def)
  show ?thesis
    using a
    by (simp add: generate_init_12345 generate_again_same_ms same_id_twice_def promise_12345_def
      job_processing_def dropAt_def Let_def onFulfilled_def generateMap_nav_fails
      generateMap_ok_status statusOf_def spread_opt_def getProp_def map_add_def)
qed

lemma set_dropAt: "set (dropAt i xs) \<subseteq> set xs"
  unfolding dropAt_def using set_take_subset [of i xs] set_drop_subset [of "Suc i" xs] by auto

lemma generateMap_terminal:
  "generateMap w seed dimension jobId ''status'' = Some (JString ''ready'')
   \<or> generateMap w seed dimension jobId ''status'' = Some (JString ''failed'')"
  by (simp add: generateMap_def Let_def split: option.splits)

lemma completion_effect:
  assumes "settles e = Some i" and "step maxJobs s e = Some s'"
  shows "i < length (pending s)
       \<and> activeJobs s' = activeJobs s - 1
       \<and> pending s' = dropAt i (pending s)
       \<and> (statusOf s' (p_jobId (pending s ! i)) = Some (JString ''ready'')
          \<or> statusOf s' (p_jobId (pending s ! i)) = Some (JString ''failed''))
       \<and> (\<forall>j. j \<noteq> p_jobId (pending s ! i) \<longrightarrow> jobs s' j = jobs s j)"
proof (cases e)
  case (Fulfil i' w t)
  with assms(1) have i: "i' = i" by (simp add: settles_def)
  from assms(2) Fulfil i have en: "i < length (pending s)" by (simp split: if_splits)
  let ?p = "pending s ! i"
  from assms(2) Fulfil i en
  have s': "s' = onFulfilled (p_jobId ?p) (generateMap w (p_seed ?p) (p_dimension ?p) (p_jobId ?p)) t
                   (s\<lparr>pending := dropAt i (pending s)\<rparr>)"
    by (simp add: Let_def)
  from generateMap_terminal [of w "p_seed ?p" "p_dimension ?p" "p_jobId ?p"]
  have st: "statusOf s' (p_jobId ?p) = Some (JString ''ready'')
          \<or> statusOf s' (p_jobId ?p) = Some (JString ''failed'')"
    unfolding s' by (auto simp: statusOf_def onFulfilled_def getProp_def map_add_def)
  from en st show ?thesis
    unfolding s' by (simp add: onFulfilled_def)
next
  case (Reject i' m t)
  with assms(1) have i: "i' = i" by (simp add: settles_def)
  from assms(2) Reject i have en: "i < length (pending s)" by (simp split: if_splits)
  let ?p = "pending s ! i"
  from assms(2) Reject i en
  have s': "s' = onRejected (p_jobId ?p) m t (s\<lparr>pending := dropAt i (pending s)\<rparr>)"
    by (simp add: Let_def)
  from en show ?thesis
    unfolding s' by (simp add: onRejected_def statusOf_def getProp_def)
qed (use assms(1) in \<open>simp_all add: settles_def\<close>)

lemma isCompletion_settles: "isCompletion e \<Longrightarrow> \<exists>i. settles e = Some i"
  by (cases e) (simp_all add: isCompletion_def settles_def)

lemma completion_other_job:
  assumes "isCompletion e" and "step maxJobs s e = Some s'" and "j \<notin> set (pendingIds s)"
  shows "jobs s' j = jobs s j \<and> j \<notin> set (pendingIds s')"
proof -
  from isCompletion_settles [OF assms(1)] obtain i where i: "settles e = Some i" by blast
  note eff = completion_effect [OF i assms(2)]
  from eff have "pending s ! i \<in> set (pending s)" by simp
  then have "p_jobId (pending s ! i) \<in> set (pendingIds s)" by (simp add: pendingIds_def)
  with assms(3) have ne: "j \<noteq> p_jobId (pending s ! i)" by blast
  from eff have "set (pending s') \<subseteq> set (pending s)" using set_dropAt [of i "pending s"] by simp
  then have "set (pendingIds s') \<subseteq> set (pendingIds s)" by (auto simp: pendingIds_def)
  with assms(3) eff ne show ?thesis by blast
qed

lemma completions_other_job:
  assumes "list_all isCompletion es" and "run maxJobs s es = Some s'" and "j \<notin> set (pendingIds s)"
  shows "jobs s' j = jobs s j \<and> j \<notin> set (pendingIds s')"
  using assms
proof (induction es arbitrary: s)
  case Nil
  then show ?case by simp
next
  case (Cons e es)
  from Cons.prems(2) obtain s1 where s1: "step maxJobs s e = Some s1" and r: "run maxJobs s1 es = Some s'"
    by (auto split: option.splits)
  from Cons.prems(1) have ce: "isCompletion e" and ces: "list_all isCompletion es" by simp_all
  from completion_other_job [OF ce s1 Cons.prems(3)]
  have k: "jobs s1 j = jobs s j" and n: "j \<notin> set (pendingIds s1)" by simp_all
  from Cons.IH [OF ces r n] k show ?case by simp
qed

text \<open>
  Claim C4 says that a second completion of a job that has reached a terminal state leaves
  the status of the first completion and does not decrement the counter again. A promise
  settles once, so a job is completed a second time only when two promises carry its id,
  which is what the two same-millisecond requests of claim C9 produce. Then the first
  promise is fulfilled with the failure object of a navigation timeout: the job is failed,
  the counter is 1, and a promise for the same id is still pending. The second promise is
  fulfilled with a rendered map: the handler overwrites the status with ready and
  decrements the counter to 0.
\<close>

theorem C4_second_completion_on_shared_id:
  "(case run 3 init [Generate body_12345 1700000000000 1700000000000,
                     Generate body_12345 1700000000000 1700000000000,
                     Fulfil 0 world_nav_fails 1700000031000] of
      None \<Rightarrow> False
    | Some s \<Rightarrow> statusOf s ''seed-12345-overworld-1700000000000'' = Some (JString ''failed'')
               \<and> activeJobs s = 1
               \<and> pendingIds s = [''seed-12345-overworld-1700000000000''])
   \<and> (case run 3 init [Generate body_12345 1700000000000 1700000000000,
                       Generate body_12345 1700000000000 1700000000000,
                       Fulfil 0 world_nav_fails 1700000031000,
                       Fulfil 0 world_ok 1700000032000] of
      None \<Rightarrow> False
    | Some s \<Rightarrow> statusOf s ''seed-12345-overworld-1700000000000'' = Some (JString ''ready'')
               \<and> activeJobs s = 0
               \<and> pendingIds s = [])"
  by (simp add: generate_init_12345 generate_again_same_ms same_id_twice_def promise_12345_def
      job_processing_def dropAt_def Let_def onFulfilled_def generateMap_nav_fails
      generateMap_ok_status statusOf_def spread_opt_def getProp_def map_add_def pendingIds_def)

text \<open>
  When no other pending promise carries the job id of the promise that settles, the job is
  completed once: the step decrements the counter by one and leaves the job ready or
  failed, and after any further sequence of completion steps the record and the status of
  that job are unchanged and no pending promise carries its id.
\<close>

lemma single_promise_completes_once:
  assumes "settles e = Some i" and "step maxJobs s e = Some s'"
    and "p_jobId (pending s ! i) \<notin> set (map p_jobId (dropAt i (pending s)))"
    and "list_all isCompletion es" and "run maxJobs s' es = Some s''"
  shows "activeJobs s' = activeJobs s - 1
       \<and> (statusOf s' (p_jobId (pending s ! i)) = Some (JString ''ready'')
          \<or> statusOf s' (p_jobId (pending s ! i)) = Some (JString ''failed''))
       \<and> statusOf s'' (p_jobId (pending s ! i)) = statusOf s' (p_jobId (pending s ! i))
       \<and> jobs s'' (p_jobId (pending s ! i)) = jobs s' (p_jobId (pending s ! i))
       \<and> p_jobId (pending s ! i) \<notin> set (pendingIds s'')"
proof -
  note eff = completion_effect [OF assms(1,2)]
  from eff assms(3) have n: "p_jobId (pending s ! i) \<notin> set (pendingIds s')"
    by (simp add: pendingIds_def)
  from completions_other_job [OF assms(4,5) n]
  have k: "jobs s'' (p_jobId (pending s ! i)) = jobs s' (p_jobId (pending s ! i))"
    and n': "p_jobId (pending s ! i) \<notin> set (pendingIds s'')" by simp_all
  from k have "statusOf s'' (p_jobId (pending s ! i)) = statusOf s' (p_jobId (pending s ! i))"
    by (simp add: statusOf_def)
  with eff k n' show ?thesis by blast
qed

end
